theory Spec2Isabelle
  imports Main "HOL-Library.Word"
begin

section \<open>Completion protocol, observable events and the world\<close>

text \<open>
  The three completion signals of \<^verbatim>\<open>system_sender::completion_signatures\<close> and
  \<^verbatim>\<open>system_bulk_sender::completion_signatures\<close>: \<^verbatim>\<open>set_value_t()\<close>,
  \<^verbatim>\<open>set_stopped_t()\<close> and \<^verbatim>\<open>set_error_t(std::exception_ptr)\<close>. The error payload
  is kept opaque (type \<open>'e\<close>).
\<close>

datatype 'e completion = SetValue | SetStopped | SetError 'e

text \<open>
  What the sender in front of a bulk stage hands to the intermediate receiver:
  \<^verbatim>\<open>set_value(as...)\<close> with the pack of values as a list, \<^verbatim>\<open>set_stopped()\<close>, or
  \<^verbatim>\<open>set_error(exception_ptr)\<close>.
\<close>

datatype ('a, 'e) prev_completion = PrevValue "'a list" | PrevStopped | PrevError 'e

text \<open>
  The index handed to the per-index function object is a \<^verbatim>\<open>long\<close>
  (\<^verbatim>\<open>[](void* __state_, long __idx)\<close>): on the LP64 platforms a 64-bit
  two's-complement integer, read with \<open>sint\<close>. The declaration of the backend's
  \<^verbatim>\<open>bulk(size, fn)\<close> is in a header that is not among the sources; its size parameter
  is taken to be a \<^verbatim>\<open>long\<close> as well, the type of the indices it ranges over.
\<close>

type_synonym long = "64 word"

text \<open>
  Calls across the boundary into the abstract backend: \<^verbatim>\<open>schedule()\<close>,
  \<^verbatim>\<open>bulk(size, fn)\<close>, \<^verbatim>\<open>connect(receiver)\<close> on an abstract sender and \<^verbatim>\<open>start()\<close>
  on an abstract operation state.
\<close>

datatype backend_call = BSchedule | BBulk long | BConnect | BStart

text \<open>
  Everything the code does that can be seen from outside, in the order it happens:
  a call into the backend, \<^verbatim>\<open>new std::tuple<As...>{as...}\<close> (address and contents),
  a call \<^verbatim>\<open>__fun_(idx, args...)\<close> of the per-index function (index, and the arguments as
  the function finds them), and a completion arriving at a receiver (named by a number).
\<close>

datatype ('a, 'e) event =
    Backend backend_call
  | New nat "'a list"
  | Invoke long "'a list"
  | Received nat "'e completion"

text \<open>
  Dereferencing a null pointer, and reading a buffer that is no longer on the heap,
  are undefined behaviour in the source; the model returns them as errors.
\<close>

datatype error = NullDeref | Dangling

text \<open>
  The heap of argument buffers (address to tuple; an address that was released maps to
  \<open>None\<close>), the next fresh address, and the log of events.
\<close>

record ('a, 'e) world =
  heap :: "nat \<rightharpoonup> 'a list"
  next_addr :: nat
  log :: "('a, 'e) event list"

definition emit :: "('a, 'e) event \<Rightarrow> ('a, 'e) world \<Rightarrow> ('a, 'e) world" where
  "emit ev w = w\<lparr>log := log w @ [ev]\<rparr>"

text \<open>
  \<^verbatim>\<open>stdexec::set_value / set_stopped / set_error (std::move(recv), ...)\<close> on a receiver
  of the caller: receiver \<open>r\<close> observes completion \<open>c\<close>.
\<close>

definition deliver :: "nat \<Rightarrow> 'e completion \<Rightarrow> ('a, 'e) world \<Rightarrow> ('a, 'e) world" where
  "deliver r c w = emit (Received r c) w"

section \<open>The abstract backend interfaces\<close>

text \<open>
  The interfaces \<^verbatim>\<open>__exec_system_operation_state_interface\<close>,
  \<^verbatim>\<open>__exec_system_sender_interface\<close> and \<^verbatim>\<open>__exec_system_scheduler_interface\<close> are used
  through pointers only; their implementation is a parameter of the model. An abstract
  operation state is what its \<^verbatim>\<open>start()\<close> does with the function pointers it was
  given, in order (its script); an abstract sender is what its \<^verbatim>\<open>connect\<close> returns (a
  pointer to an operation state, or null). A pointer is an \<open>option\<close>, \<open>None\<close> for null.

  The work object made by \<^verbatim>\<open>schedule()\<close> holds a receiver shim only, so each step of its
  script is a completion. The work object made by \<^verbatim>\<open>bulk(size, fn)\<close> also holds the
  per-index function object, so each step is either a call of it at an index or a
  completion.
\<close>

datatype 'x exec_system_operation_state = OperationState (script: "'x list")

datatype 'x exec_system_sender =
  SenderImpl (connect_impl: "'x exec_system_operation_state option")

datatype 'e bulk_step = CallFn long | Complete "'e completion"

record 'e exec_system_scheduler =
  sched_addr :: nat
  schedule_impl :: "'e completion exec_system_sender option"
  bulk_impl :: "long \<Rightarrow> 'e bulk_step exec_system_sender option"

record 'e exec_system_context =
  get_scheduler_impl :: "'e exec_system_scheduler option"

section \<open>\<^verbatim>\<open>system_scheduler\<close> and \<^verbatim>\<open>system_sender\<close>\<close>

record 'e system_scheduler =
  scheduler_interface :: "'e exec_system_scheduler option"

record 'e system_sender =
  sender_impl :: "'e completion exec_system_sender option"

text \<open>
  \<^verbatim>\<open>system_sender::__op<S, R>\<close>: the sender, the receiver (of any type \<open>'r\<close>) and the
  abstract operation state.
\<close>

record ('r, 'e) op =
  snd_op :: "'e system_sender"
  recv_op :: 'r
  os_op :: "'e completion exec_system_operation_state option"

text \<open>
  \<^verbatim>\<open>tag_invoke(schedule_t, sched)\<close>:
  \<^verbatim>\<open>return system_sender(sched.__scheduler_interface_->schedule());\<close>
\<close>

definition schedule ::
  "'e system_scheduler \<Rightarrow> ('a, 'e) world \<Rightarrow> error + ('e system_sender \<times> ('a, 'e) world)" where
  "schedule sched w =
     (case scheduler_interface sched of
        None \<Rightarrow> Inl NullDeref
      | Some impl \<Rightarrow> Inr (\<lparr>sender_impl = schedule_impl impl\<rparr>, emit (Backend BSchedule) w))"

text \<open>
  The three function pointers of the \<^verbatim>\<open>__exec_system_receiver\<close> built in \<^verbatim>\<open>connect\<close>,
  for a receiver of the caller: each casts the opaque pointer back to the receiver and
  calls the matching completion on it. (The error pointer is decoded with
  \<^verbatim>\<open>reinterpret_cast\<close> of its address here and with \<^verbatim>\<open>static_cast\<close> of its value in the
  bulk shim; the payload is opaque in the model.)
\<close>

definition receiver_shim :: "nat \<Rightarrow> 'e completion \<Rightarrow> ('a, 'e) world \<Rightarrow> ('a, 'e) world" where
  "receiver_shim cpp_recv c w = deliver cpp_recv c w"

text \<open>
  \<^verbatim>\<open>tag_invoke(connect_t, system_sender&&, R&&)\<close>: the operation state stores sender and
  receiver, and \<^verbatim>\<open>__os_\<close> is \<^verbatim>\<open>__snd_.__sender_impl_->connect(receiver_impl)\<close>.
\<close>

definition connect ::
  "'e system_sender \<Rightarrow> 'r \<Rightarrow> ('a, 'e) world \<Rightarrow> error + (('r, 'e) op \<times> ('a, 'e) world)" where
  "connect self r w =
     (case sender_impl self of
        None \<Rightarrow> Inl NullDeref
      | Some impl \<Rightarrow>
          Inr (\<lparr>snd_op = self, recv_op = r, os_op = connect_impl impl\<rparr>,
               emit (Backend BConnect) w))"

text \<open>
  \<^verbatim>\<open>tag_invoke(start_t, __op&)\<close>: \<^verbatim>\<open>if (auto __os = __op_v.__os_) { __os->start(); }\<close>,
  for an operation state whose receiver is a receiver of the caller. The abstract
  operation state then runs its script against the shim it was connected to.
\<close>

definition start :: "(nat, 'e) op \<Rightarrow> ('a, 'e) world \<Rightarrow> ('a, 'e) world" where
  "start op_v w =
     (case os_op op_v of
        None \<Rightarrow> w
      | Some os \<Rightarrow> fold (receiver_shim (recv_op op_v)) (script os) (emit (Backend BStart) w))"

section \<open>\<^verbatim>\<open>system_bulk_sender\<close> and its operation state\<close>

text \<open>
  The previous sender is the template parameter \<^verbatim>\<open>__Previous\<close>. It is either a
  \<^verbatim>\<open>system_sender\<close> of this file (as in \<^verbatim>\<open>bulk(schedule(sched), n, f)\<close>), or a sender
  from elsewhere. A sender from elsewhere is given by the completions that its operation
  state, once started, hands to the receiver it was connected to, in order (a sender that
  keeps the protocol hands over exactly one); what connecting and starting it do outside
  this file is not part of the model.
\<close>

datatype ('a, 'e) previous_sender =
    SystemSender "'e system_sender"
  | OtherSender "('a, 'e) prev_completion list"

text \<open>
  \<^verbatim>\<open>system_bulk_sender<Previous, Size, Fn>\<close>. \<^verbatim>\<open>__size_\<close> has an integral type chosen
  by the caller; the model keeps its value. \<^verbatim>\<open>__fun_\<close> is called as
  \<^verbatim>\<open>__fun_(__idx, __args...)\<close> with the elements of the stored tuple as lvalues, so it may
  write to them: it is given by what it leaves in the tuple, for each index and each
  contents it finds there. That it was called is the event \<open>Invoke\<close>.
\<close>

record ('a, 'e) system_bulk_sender =
  scheduler_impl :: "'e exec_system_scheduler option"
  previous :: "('a, 'e) previous_sender"
  size_bulk :: int
  fun_bulk :: "long \<Rightarrow> 'a list \<Rightarrow> 'a list"

text \<open>
  \<^verbatim>\<open>__bulk_state\<close>, with the member initialisers
  \<^verbatim>\<open>__arguments_data_{nullptr}\<close> and \<^verbatim>\<open>__os_{nullptr}\<close> applied by \<open>bulk_connect\<close>.
\<close>

record ('a, 'e) bulk_state =
  snd_bulk :: "('a, 'e) system_bulk_sender"
  recv_bulk :: nat
  arguments_data :: "nat option"
  os_bulk :: "'e bulk_step exec_system_operation_state option"

text \<open>
  \<^verbatim>\<open>__bulk_intermediate_receiver\<close> holds nothing but the reference \<^verbatim>\<open>__state_\<close> to the
  bulk state of the operation state it lives in; the model passes that state along.
\<close>

datatype bulk_intermediate_receiver = BulkIntermediateReceiver

text \<open>
  \<^verbatim>\<open>__inner_op_state\<close>, the result of connecting the previous sender to the intermediate
  receiver: a \<^verbatim>\<open>system_sender::__op\<close>, or the operation state of a sender from elsewhere.
\<close>

datatype ('a, 'e) inner_op_state =
    SystemOp "(bulk_intermediate_receiver, 'e) op"
  | OtherOp "('a, 'e) prev_completion list"

text \<open>\<^verbatim>\<open>__bulk_op\<close>: the bulk state and the operation state of the previous computation.\<close>

record ('a, 'e) bulk_op =
  state :: "('a, 'e) bulk_state"
  previous_operation_state :: "('a, 'e) inner_op_state"

text \<open>
  \<^verbatim>\<open>tag_invoke(bulk_t, self, previous, size, fun)\<close>: returns
  \<^verbatim>\<open>system_bulk_sender{__self.__scheduler_interface_, previous, size, fun}\<close>; the
  scheduler pointer is copied, not dereferenced.
\<close>

definition bulk ::
  "'e system_scheduler \<Rightarrow> ('a, 'e) previous_sender \<Rightarrow> int \<Rightarrow> (long \<Rightarrow> 'a list \<Rightarrow> 'a list)
     \<Rightarrow> ('a, 'e) world \<Rightarrow> ('a, 'e) system_bulk_sender \<times> ('a, 'e) world" where
  "bulk self prev n f w =
     (\<lparr>scheduler_impl = scheduler_interface self, previous = prev, size_bulk = n, fun_bulk = f\<rparr>,
      w)"

text \<open>
  \<^verbatim>\<open>stdexec::connect(std::move(__op.__state_.__snd_.__previous_),
  __bulk_intermediate_receiver{__op.__state_})\<close>: for a \<^verbatim>\<open>system_sender\<close> this is \<open>connect\<close>
  above, which calls into the backend.
\<close>

fun connect_previous ::
  "('a, 'e) previous_sender \<Rightarrow> ('a, 'e) world
     \<Rightarrow> error + (('a, 'e) inner_op_state \<times> ('a, 'e) world)" where
  "connect_previous (SystemSender s) w =
     (case connect s BulkIntermediateReceiver w of
        Inl e \<Rightarrow> Inl e
      | Inr (op_v, w') \<Rightarrow> Inr (SystemOp op_v, w'))"
| "connect_previous (OtherSender cs) w = Inr (OtherOp cs, w)"

text \<open>
  \<^verbatim>\<open>tag_invoke(connect_t, system_bulk_sender&&, R&&)\<close>: the constructor of \<^verbatim>\<open>__bulk_op\<close>
  builds the state from sender and receiver and then runs the init function, which
  connects the previous sender to an intermediate receiver that refers to the state.
\<close>

definition bulk_connect ::
  "('a, 'e) system_bulk_sender \<Rightarrow> nat \<Rightarrow> ('a, 'e) world
     \<Rightarrow> error + (('a, 'e) bulk_op \<times> ('a, 'e) world)" where
  "bulk_connect self r w =
     (case connect_previous (previous self) w of
        Inl e \<Rightarrow> Inl e
      | Inr (inner, w') \<Rightarrow>
          Inr (\<lparr>state = \<lparr>snd_bulk = self, recv_bulk = r, arguments_data = None, os_bulk = None\<rparr>,
                previous_operation_state = inner\<rparr>,
               w'))"

text \<open>
  The \<^verbatim>\<open>__exec_system_bulk_function_object\<close> built in \<^verbatim>\<open>set_value\<close>: given the state
  pointer and an index, it reads \<^verbatim>\<open>__state->__arguments_data_\<close>, casts it to the tuple
  and applies \<^verbatim>\<open>__state->__snd_.__fun_(__idx, __args...)\<close> to the tuple's elements, which
  the function may overwrite in place.
\<close>

definition bulk_function_object ::
  "('a, 'e) bulk_state \<Rightarrow> long \<Rightarrow> ('a, 'e) world \<Rightarrow> error + ('a, 'e) world" where
  "bulk_function_object st idx w =
     (case arguments_data st of
        None \<Rightarrow> Inl NullDeref
      | Some p \<Rightarrow>
          (case heap w p of
             None \<Rightarrow> Inl Dangling
           | Some args \<Rightarrow>
               Inr (emit (Invoke idx args)
                      (w\<lparr>heap := (heap w)(p \<mapsto> fun_bulk (snd_bulk st) idx args)\<rparr>))))"

text \<open>
  One step of a bulk work object's script: it calls the function object it was built
  with, or one of the function pointers of the receiver shim it was connected to (which
  forwards to \<^verbatim>\<open>__state_.__recv_\<close>).
\<close>

fun perform ::
  "('a, 'e) bulk_state \<Rightarrow> 'e bulk_step \<Rightarrow> ('a, 'e) world \<Rightarrow> error + ('a, 'e) world" where
  "perform st (CallFn idx) w = bulk_function_object st idx w"
| "perform st (Complete c) w = Inr (receiver_shim (recv_bulk st) c w)"

fun run_script ::
  "('a, 'e) bulk_state \<Rightarrow> 'e bulk_step list \<Rightarrow> ('a, 'e) world \<Rightarrow> error + ('a, 'e) world" where
  "run_script st [] w = Inr w"
| "run_script st (a # as) w =
     (case perform st a w of
        Inl e \<Rightarrow> Inl e
      | Inr w' \<Rightarrow> run_script st as w')"

text \<open>
  \<^verbatim>\<open>tag_invoke(set_value_t, __bulk_intermediate_receiver&&, As&&...)\<close>, statement by
  statement: allocate the tuple and store its address in the state; read the scheduler
  pointer; if it is not null, ask it for the bulk sender (the size is converted to the
  parameter type, \<^verbatim>\<open>long\<close>, which wraps modulo \<open>2^64\<close>), connect that to the shim around
  \<^verbatim>\<open>__state_.__recv_\<close>, store the result in \<^verbatim>\<open>__os_\<close> and start it. Neither
  \<^verbatim>\<open>__sender\<close> nor \<^verbatim>\<open>__os_\<close> is tested before it is dereferenced.
\<close>

definition set_value ::
  "('a, 'e) bulk_state \<Rightarrow> 'a list \<Rightarrow> ('a, 'e) world
     \<Rightarrow> error + (('a, 'e) bulk_state \<times> ('a, 'e) world)" where
  "set_value st as w =
     (let inputs = next_addr w;
          w1 = emit (New inputs as) (w\<lparr>heap := (heap w)(inputs \<mapsto> as), next_addr := Suc inputs\<rparr>);
          st1 = st\<lparr>arguments_data := Some inputs\<rparr>
      in case scheduler_impl (snd_bulk st1) of
           None \<Rightarrow> Inr (st1, w1)
         | Some sched \<Rightarrow>
             (case bulk_impl sched (word_of_int (size_bulk (snd_bulk st1))) of
                None \<Rightarrow> Inl NullDeref
              | Some sender \<Rightarrow>
                  (let w2 = emit (Backend BConnect)
                              (emit (Backend (BBulk (word_of_int (size_bulk (snd_bulk st1))))) w1);
                       st2 = st1\<lparr>os_bulk := connect_impl sender\<rparr>
                   in case os_bulk st2 of
                        None \<Rightarrow> Inl NullDeref
                      | Some os \<Rightarrow>
                          (case run_script st2 (script os) (emit (Backend BStart) w2) of
                             Inl e \<Rightarrow> Inl e
                           | Inr w3 \<Rightarrow> Inr (st2, w3)))))"

text \<open>
  \<^verbatim>\<open>tag_invoke(set_stopped_t, ...)\<close> and \<^verbatim>\<open>tag_invoke(set_error_t, ..., ptr)\<close> of the
  intermediate receiver: forward to \<^verbatim>\<open>__state_.__recv_\<close>.
\<close>

definition set_stopped :: "('a, 'e) bulk_state \<Rightarrow> ('a, 'e) world \<Rightarrow> ('a, 'e) world" where
  "set_stopped st w = deliver (recv_bulk st) SetStopped w"

definition set_error :: "('a, 'e) bulk_state \<Rightarrow> 'e \<Rightarrow> ('a, 'e) world \<Rightarrow> ('a, 'e) world" where
  "set_error st ptr w = deliver (recv_bulk st) (SetError ptr) w"

text \<open>A completion of the previous operation state arriving at the intermediate receiver.\<close>

fun intermediate_receiver ::
  "('a, 'e) bulk_state \<Rightarrow> ('a, 'e) prev_completion \<Rightarrow> ('a, 'e) world
     \<Rightarrow> error + (('a, 'e) bulk_state \<times> ('a, 'e) world)" where
  "intermediate_receiver st (PrevValue as) w = set_value st as w"
| "intermediate_receiver st PrevStopped w = Inr (st, set_stopped st w)"
| "intermediate_receiver st (PrevError ptr) w = Inr (st, set_error st ptr w)"

fun complete_all ::
  "('a, 'e) bulk_state \<Rightarrow> ('a, 'e) prev_completion list \<Rightarrow> ('a, 'e) world
     \<Rightarrow> error + (('a, 'e) bulk_state \<times> ('a, 'e) world)" where
  "complete_all st [] w = Inr (st, w)"
| "complete_all st (c # cs) w =
     (case intermediate_receiver st c w of
        Inl e \<Rightarrow> Inl e
      | Inr (st', w') \<Rightarrow> complete_all st' cs w')"

text \<open>
  The shim that \<open>connect\<close> builds when the receiver is the intermediate receiver: the
  backend's value completion becomes \<^verbatim>\<open>set_value\<close> with no values, stopped and error are
  passed on.
\<close>

fun intermediate_shim :: "'e completion \<Rightarrow> ('a, 'e) prev_completion" where
  "intermediate_shim SetValue = PrevValue []"
| "intermediate_shim SetStopped = PrevStopped"
| "intermediate_shim (SetError ptr) = PrevError ptr"

text \<open>
  \<^verbatim>\<open>stdexec::start(__self.__previous_operation_state_)\<close>. For a \<^verbatim>\<open>system_sender::__op\<close>
  this is \<^verbatim>\<open>tag_invoke(start_t, __op&)\<close> again, now with the intermediate receiver
  behind the shim.
\<close>

fun start_previous ::
  "('a, 'e) bulk_state \<Rightarrow> ('a, 'e) inner_op_state \<Rightarrow> ('a, 'e) world
     \<Rightarrow> error + (('a, 'e) bulk_state \<times> ('a, 'e) world)" where
  "start_previous st (SystemOp op_v) w =
     (case os_op op_v of
        None \<Rightarrow> Inr (st, w)
      | Some os \<Rightarrow> complete_all st (map intermediate_shim (script os)) (emit (Backend BStart) w))"
| "start_previous st (OtherOp cs) w = complete_all st cs w"

text \<open>
  \<^verbatim>\<open>tag_invoke(start_t, __bulk_op&)\<close>: start \<^verbatim>\<open>__state_.__os_\<close> if it is not null, then
  start the previous operation state.
\<close>

definition bulk_start ::
  "('a, 'e) bulk_op \<Rightarrow> ('a, 'e) world \<Rightarrow> error + (('a, 'e) bulk_op \<times> ('a, 'e) world)" where
  "bulk_start self w =
     (case (case os_bulk (state self) of
              None \<Rightarrow> Inr w
            | Some os \<Rightarrow> run_script (state self) (script os) (emit (Backend BStart) w)) of
        Inl e \<Rightarrow> Inl e
      | Inr w1 \<Rightarrow>
          (case start_previous (state self) (previous_operation_state self) w1 of
             Inl e \<Rightarrow> Inl e
           | Inr (st, w2) \<Rightarrow> Inr (self\<lparr>state := st\<rparr>, w2)))"

text \<open>
  A bulk stage from composition to the end of \<open>start\<close>: \<open>bulk\<close> on a scheduler handle,
  \<open>bulk_connect\<close> to receiver \<open>r\<close>, \<open>bulk_start\<close>.
\<close>

definition run_bulk ::
  "'e system_scheduler \<Rightarrow> ('a, 'e) previous_sender \<Rightarrow> int \<Rightarrow> (long \<Rightarrow> 'a list \<Rightarrow> 'a list)
     \<Rightarrow> nat \<Rightarrow> ('a, 'e) world \<Rightarrow> error + (('a, 'e) bulk_op \<times> ('a, 'e) world)" where
  "run_bulk sched prev n f r w =
     (let (sender, w1) = bulk sched prev n f w
      in case bulk_connect sender r w1 of
           Inl e \<Rightarrow> Inl e
         | Inr (op_v, w2) \<Rightarrow> bulk_start op_v w2)"

text \<open>
  The completions that a connected previous operation state hands to the intermediate
  receiver once it is started.
\<close>

fun inner_completions :: "('a, 'e) inner_op_state \<Rightarrow> ('a, 'e) prev_completion list" where
  "inner_completions (SystemOp op_v) =
     (case os_op op_v of
        None \<Rightarrow> []
      | Some os \<Rightarrow> map intermediate_shim (script os))"
| "inner_completions (OtherOp cs) = cs"

text \<open>The state of a bulk operation right after \<open>bulk\<close> and \<open>bulk_connect\<close>.\<close>

abbreviation connected_state ::
  "'e system_scheduler \<Rightarrow> ('a, 'e) previous_sender \<Rightarrow> int \<Rightarrow> (long \<Rightarrow> 'a list \<Rightarrow> 'a list) \<Rightarrow> nat
     \<Rightarrow> ('a, 'e) bulk_state" where
  "connected_state sched prev n f r \<equiv>
     \<lparr>snd_bulk = \<lparr>scheduler_impl = scheduler_interface sched, previous = prev,
                  size_bulk = n, fun_bulk = f\<rparr>,
      recv_bulk = r, arguments_data = None, os_bulk = None\<rparr>"

section \<open>\<^verbatim>\<open>system_context\<close> and scheduler equality\<close>

text \<open>
  \<^verbatim>\<open>system_context\<close> holds the pointer \<^verbatim>\<open>__impl_\<close> to the context implementation;
  \<^verbatim>\<open>get_scheduler\<close> returns \<^verbatim>\<open>system_scheduler{__impl_->get_scheduler()}\<close>.
\<close>

record 'e system_context =
  impl :: "'e exec_system_context option"

definition get_scheduler :: "'e system_context \<Rightarrow> error + 'e system_scheduler" where
  "get_scheduler ctx =
     (case impl ctx of
        None \<Rightarrow> Inl NullDeref
      | Some i \<Rightarrow> Inr \<lparr>scheduler_interface = get_scheduler_impl i\<rparr>)"

text \<open>
  Modelled from the spec: the virtual \<^verbatim>\<open>equals\<close> of the backend's scheduler. Its
  implementation (\<^verbatim>\<open>__detail/__system_context_default_impl.hpp\<close>) is not among the
  sources. The spec gives it as the "identity-equality test" of the Abstract Scheduler
  and the handle's equality as "reference/identity equality delegated to the abstract
  implementation": the other pointer refers to this very scheduler object. In the same
  way the field \<open>get_scheduler_impl\<close> of the context implementation follows the spec's
  "returns a handle bound to the context's backend; pure, repeatable, side-effect-free".
\<close>

definition equals :: "'e exec_system_scheduler \<Rightarrow> 'e exec_system_scheduler option \<Rightarrow> bool" where
  "equals self rhs =
     (case rhs of
        None \<Rightarrow> False
      | Some other \<Rightarrow> sched_addr other = sched_addr self)"

text \<open>
  \<^verbatim>\<open>system_scheduler::operator==\<close>:
  \<^verbatim>\<open>return __scheduler_interface_->equals(__rhs.__scheduler_interface_);\<close>
\<close>

definition scheduler_eq :: "'e system_scheduler \<Rightarrow> 'e system_scheduler \<Rightarrow> error + bool" where
  "scheduler_eq lhs rhs =
     (case scheduler_interface lhs of
        None \<Rightarrow> Inl NullDeref
      | Some self \<Rightarrow> Inr (equals self (scheduler_interface rhs)))"

section \<open>Reading scripts and the log\<close>

text \<open>The indices a script calls the function object at, and its completions, in order.\<close>

fun call_indices :: "'e bulk_step list \<Rightarrow> long list" where
  "call_indices [] = []"
| "call_indices (CallFn i # steps) = i # call_indices steps"
| "call_indices (Complete c # steps) = call_indices steps"

fun completions_of :: "'e bulk_step list \<Rightarrow> 'e completion list" where
  "completions_of [] = []"
| "completions_of (CallFn i # steps) = completions_of steps"
| "completions_of (Complete c # steps) = c # completions_of steps"

text \<open>
  Modelled from the spec: the backend's bulk work object, whose implementation
  (\<^verbatim>\<open>__detail/__system_context_default_impl.hpp\<close>) is not among the sources, "completes
  (fires its own single completion)". The predicate says that the backend is there for
  a bulk stage of size \<open>n\<close> and does so: the scheduler pointer is not null, its
  \<^verbatim>\<open>bulk\<close> returns a work object, connecting that returns an operation state, and the
  script of that operation state holds exactly one completion.
\<close>

definition bulk_completes_once :: "'e system_scheduler \<Rightarrow> int \<Rightarrow> bool" where
  "bulk_completes_once sched n =
     (case scheduler_interface sched of
        None \<Rightarrow> False
      | Some self \<Rightarrow>
          (case bulk_impl self (word_of_int n) of
             None \<Rightarrow> False
           | Some sender \<Rightarrow>
               (case connect_impl sender of
                  None \<Rightarrow> False
                | Some os \<Rightarrow> length (completions_of (script os)) = 1)))"

text \<open>The completions that receiver \<open>r\<close> has observed, oldest first.\<close>

fun received :: "nat \<Rightarrow> ('a, 'e) event list \<Rightarrow> 'e completion list" where
  "received r [] = []"
| "received r (Received r' c # evs) = (if r' = r then c # received r evs else received r evs)"
| "received r (ev # evs) = received r evs"

text \<open>The calls of the per-index function: index and arguments found; oldest first.\<close>

fun invocations :: "('a, 'e) event list \<Rightarrow> (long \<times> 'a list) list" where
  "invocations [] = []"
| "invocations (Invoke idx args # evs) = (idx, args) # invocations evs"
| "invocations (ev # evs) = invocations evs"

text \<open>The buffers allocated: address and contents; oldest first.\<close>

fun allocations :: "('a, 'e) event list \<Rightarrow> (nat \<times> 'a list) list" where
  "allocations [] = []"
| "allocations (New p args # evs) = (p, args) # allocations evs"
| "allocations (ev # evs) = allocations evs"

text \<open>The calls into the backend, oldest first.\<close>

fun backend_calls :: "('a, 'e) event list \<Rightarrow> backend_call list" where
  "backend_calls [] = []"
| "backend_calls (Backend b # evs) = b # backend_calls evs"
| "backend_calls (ev # evs) = backend_calls evs"

text \<open>
  What a sequence of calls of \<open>f\<close> at the indices \<open>is\<close> sees in a buffer that holds \<open>args\<close>
  at first: each call finds what the calls before it left there.
\<close>

fun seen :: "(long \<Rightarrow> 'a list \<Rightarrow> 'a list) \<Rightarrow> long list \<Rightarrow> 'a list \<Rightarrow> (long \<times> 'a list) list" where
  "seen f [] args = []"
| "seen f (i # is) args = (i, args) # seen f is (f i args)"

text \<open>
  The events that a bulk work object's script leaves in the log, for receiver \<open>r\<close>,
  function \<open>f\<close> and a buffer that holds \<open>args\<close> at first.
\<close>

fun script_events ::
  "nat \<Rightarrow> (long \<Rightarrow> 'a list \<Rightarrow> 'a list) \<Rightarrow> 'a list \<Rightarrow> 'e bulk_step list \<Rightarrow> ('a, 'e) event list" where
  "script_events r f args [] = []"
| "script_events r f args (CallFn i # steps) = Invoke i args # script_events r f (f i args) steps"
| "script_events r f args (Complete c # steps) = Received r c # script_events r f args steps"

text \<open>The events added to the log between world \<open>w\<close> and a later world \<open>w'\<close>.\<close>

definition new_events :: "('a, 'e) world \<Rightarrow> ('a, 'e) world \<Rightarrow> ('a, 'e) event list" where
  "new_events w w' = drop (length (log w)) (log w')"

section \<open>Concrete inputs\<close>

text \<open>
  An empty world, and two backends on which the model is evaluated. The first one
  delivers one value completion for single work; for bulk work it calls index 1, then
  index 0, and then completes with a value, as a backend may do for size 2. The second
  one lives at another address and produces no work objects.
\<close>

abbreviation empty_world :: "(nat, nat) world" where
  "empty_world \<equiv> \<lparr>heap = Map.empty, next_addr = 0, log = []\<rparr>"

abbreviation descending_backend :: "nat exec_system_scheduler" where
  "descending_backend \<equiv>
     \<lparr>sched_addr = 1,
      schedule_impl = Some (SenderImpl (Some (OperationState [SetValue]))),
      bulk_impl = (\<lambda>n. Some (SenderImpl (Some (OperationState
                     [CallFn 1, CallFn 0, Complete SetValue]))))\<rparr>"

abbreviation descending_scheduler :: "nat system_scheduler" where
  "descending_scheduler \<equiv> \<lparr>scheduler_interface = Some descending_backend\<rparr>"

abbreviation other_backend :: "nat exec_system_scheduler" where
  "other_backend \<equiv> \<lparr>sched_addr = 2, schedule_impl = None, bulk_impl = (\<lambda>n. None)\<rparr>"

section \<open>Properties\<close>

subsection \<open>Helper lemmas\<close>

lemma new_events_emit: "new_events w (emit ev w) = [ev]"
  by (simp add: new_events_def emit_def)

lemma new_events_append: "log w' = log w @ evs \<Longrightarrow> new_events w w' = evs"
  by (simp add: new_events_def)

lemma invocations_script: "invocations (script_events r f a steps) = seen f (call_indices steps) a"
  by (induction r f a steps rule: script_events.induct) simp_all

lemma received_script: "received r (script_events r f a steps) = completions_of steps"
  by (induction r f a steps rule: script_events.induct) simp_all

lemma allocations_script: "allocations (script_events r f a steps) = []"
  by (induction r f a steps rule: script_events.induct) simp_all

lemma backend_calls_script: "backend_calls (script_events r f a steps) = []"
  by (induction r f a steps rule: script_events.induct) simp_all

lemma map_fst_seen: "map fst (seen f is a) = is"
  by (induction "is" arbitrary: a) simp_all

lemma seen_unchanged: "(\<forall>i x. f i x = x) \<Longrightarrow> seen f is a = map (\<lambda>i. (i, a)) is"
  by (induction "is") simp_all

lemma fold_unchanged: "(\<forall>i x. f i x = x) \<Longrightarrow> fold f is a = a"
  by (induction "is") simp_all

lemma run_script_live:
  "arguments_data st = Some p \<Longrightarrow> heap w p = Some a \<Longrightarrow>
   run_script st steps w
     = Inr (w\<lparr>heap := (heap w)(p \<mapsto> fold (fun_bulk (snd_bulk st)) (call_indices steps) a),
              log := log w @ script_events (recv_bulk st) (fun_bulk (snd_bulk st)) a steps\<rparr>)"
proof (induction steps arbitrary: w a)
  case Nil
  then have "(heap w)(p \<mapsto> a) = heap w" by (simp add: map_upd_triv)
  then show ?case by simp
next
  case (Cons s steps)
  show ?case
  proof (cases s)
    case (CallFn idx)
    let ?f = "fun_bulk (snd_bulk st)"
    let ?w1 = "emit (Invoke idx a) (w\<lparr>heap := (heap w)(p \<mapsto> ?f idx a)\<rparr>)"
    have h: "heap ?w1 p = Some (?f idx a)" by (simp add: emit_def)
    from Cons.IH [OF Cons.prems(1) h] show ?thesis
      using Cons.prems CallFn by (simp add: bulk_function_object_def emit_def del: fun_upd_apply)
  next
    case (Complete c)
    let ?w1 = "receiver_shim (recv_bulk st) c w"
    have h: "heap ?w1 p = Some a"
      using Cons.prems by (simp add: receiver_shim_def deliver_def emit_def)
    from Cons.IH [OF Cons.prems(1) h] show ?thesis
      using Complete by (simp add: receiver_shim_def deliver_def emit_def del: fun_upd_apply)
  qed
qed

lemma set_value_null:
  assumes "scheduler_impl (snd_bulk st) = None"
  shows "set_value st v w
     = Inr (st\<lparr>arguments_data := Some (next_addr w)\<rparr>,
            w\<lparr>heap := (heap w)(next_addr w \<mapsto> v), next_addr := Suc (next_addr w),
              log := log w @ [New (next_addr w) v]\<rparr>)"
  using assms by (simp add: set_value_def Let_def emit_def)

lemma set_value_no_sender:
  assumes "scheduler_impl (snd_bulk st) = Some self"
      and "bulk_impl self (word_of_int (size_bulk (snd_bulk st))) = None"
  shows "set_value st v w = Inl NullDeref"
  using assms by (simp add: set_value_def Let_def)

lemma set_value_no_os:
  assumes "scheduler_impl (snd_bulk st) = Some self"
      and "bulk_impl self (word_of_int (size_bulk (snd_bulk st))) = Some sender"
      and "connect_impl sender = None"
  shows "set_value st v w = Inl NullDeref"
  using assms by (simp add: set_value_def Let_def)

lemma set_value_valid:
  assumes "scheduler_impl (snd_bulk st) = Some self"
      and "bulk_impl self (word_of_int (size_bulk (snd_bulk st))) = Some sender"
      and "connect_impl sender = Some os"
  shows "set_value st v w
     = Inr (st\<lparr>arguments_data := Some (next_addr w), os_bulk := Some os\<rparr>,
            w\<lparr>heap := (heap w)(next_addr w \<mapsto>
                        fold (fun_bulk (snd_bulk st)) (call_indices (script os)) v),
              next_addr := Suc (next_addr w),
              log := log w @ [New (next_addr w) v,
                              Backend (BBulk (word_of_int (size_bulk (snd_bulk st)))),
                              Backend BConnect, Backend BStart]
                       @ script_events (recv_bulk st) (fun_bulk (snd_bulk st)) v (script os)\<rparr>)"
proof -
  let ?st2 = "st\<lparr>arguments_data := Some (next_addr w), os_bulk := Some os\<rparr>"
  let ?w3 = "w\<lparr>heap := (heap w)(next_addr w \<mapsto> v), next_addr := Suc (next_addr w),
               log := log w @ [New (next_addr w) v,
                               Backend (BBulk (word_of_int (size_bulk (snd_bulk st)))),
                               Backend BConnect, Backend BStart]\<rparr>"
  have rs: "run_script ?st2 (script os) ?w3
     = Inr (?w3\<lparr>heap := (heap ?w3)(next_addr w \<mapsto>
                        fold (fun_bulk (snd_bulk ?st2)) (call_indices (script os)) v),
              log := log ?w3 @ script_events (recv_bulk ?st2) (fun_bulk (snd_bulk ?st2)) v (script os)\<rparr>)"
    by (rule run_script_live) simp_all
  show ?thesis
    using assms rs by (simp add: set_value_def Let_def emit_def)
qed

lemma connect_previous_world:
  assumes "connect_previous prev w = Inr (inner, w1)"
  shows "heap w1 = heap w \<and> next_addr w1 = next_addr w
       \<and> (\<exists>bs. log w1 = log w @ map Backend bs)"
proof (cases prev)
  case (SystemSender s)
  with assms have "w1 = emit (Backend BConnect) w"
    by (auto simp: connect_def split: option.splits)
  then have "heap w1 = heap w" "next_addr w1 = next_addr w"
    "log w1 = log w @ map Backend [BConnect]"
    by (simp_all add: emit_def)
  then show ?thesis by blast
next
  case (OtherSender cs)
  with assms have "w1 = w" by simp
  then have "log w1 = log w @ map Backend []" by simp
  with \<open>w1 = w\<close> show ?thesis by blast
qed

lemma start_previous_world:
  "\<exists>w1'. start_previous st inner w1 = complete_all st (inner_completions inner) w1'
         \<and> heap w1' = heap w1 \<and> next_addr w1' = next_addr w1
         \<and> (\<exists>bs. log w1' = log w1 @ map Backend bs)"
proof -
  have e: "log w1 = log w1 @ map Backend []" by simp
  have s: "log (emit (Backend BStart) w1) = log w1 @ map Backend [BStart]"
    by (simp add: emit_def)
  have hs: "heap (emit (Backend BStart) w1) = heap w1"
    "next_addr (emit (Backend BStart) w1) = next_addr w1"
    by (simp_all add: emit_def)
  show ?thesis
  proof (cases inner)
    case (SystemOp op_v)
    show ?thesis
    proof (cases "os_op op_v")
      case None
      with SystemOp have "start_previous st inner w1 = complete_all st (inner_completions inner) w1"
        by simp
      with e show ?thesis by blast
    next
      case (Some os)
      with SystemOp have "start_previous st inner w1
          = complete_all st (inner_completions inner) (emit (Backend BStart) w1)"
        by simp
      with s hs show ?thesis by blast
    qed
  next
    case (OtherOp cs)
    then have "start_previous st inner w1 = complete_all st (inner_completions inner) w1"
      by simp
    with e show ?thesis by blast
  qed
qed

lemma run_bulk_unfold:
  assumes "connect_previous prev w = Inr (inner, w1)"
  shows "run_bulk sched prev n f r w
     = (case start_previous
              \<lparr>snd_bulk = \<lparr>scheduler_impl = scheduler_interface sched, previous = prev,
                           size_bulk = n, fun_bulk = f\<rparr>,
               recv_bulk = r, arguments_data = None, os_bulk = None\<rparr> inner w1 of
          Inl e \<Rightarrow> Inl e
        | Inr (st, w2) \<Rightarrow> Inr (\<lparr>state = st, previous_operation_state = inner\<rparr>, w2))"
  using assms
  by (simp add: run_bulk_def bulk_def bulk_connect_def bulk_start_def split: sum.splits prod.splits)

lemma received_append: "received r (xs @ ys) = received r xs @ received r ys"
  by (induction xs rule: received.induct) simp_all

lemma invocations_append: "invocations (xs @ ys) = invocations xs @ invocations ys"
  by (induction xs rule: invocations.induct) simp_all

lemma allocations_append: "allocations (xs @ ys) = allocations xs @ allocations ys"
  by (induction xs rule: allocations.induct) simp_all

lemma received_backend: "received r (map Backend bs) = []"
  by (induction bs) simp_all

lemma invocations_backend: "invocations (map Backend bs) = []"
  by (induction bs) simp_all

lemma allocations_backend: "allocations (map Backend bs) = []"
  by (induction bs) simp_all

lemma run_bulk_completions:
  assumes "connect_previous prev w = Inr (inner, w1)"
  shows "\<exists>w1' bs. heap w1' = heap w \<and> next_addr w1' = next_addr w
           \<and> log w1' = log w @ map Backend bs
           \<and> run_bulk sched prev n f r w
               = (case complete_all (connected_state sched prev n f r) (inner_completions inner) w1' of
                    Inl e \<Rightarrow> Inl e
                  | Inr (st, w2) \<Rightarrow> Inr (\<lparr>state = st, previous_operation_state = inner\<rparr>, w2))"
proof -
  from connect_previous_world [OF assms] obtain bs1 where
    a: "heap w1 = heap w" "next_addr w1 = next_addr w" "log w1 = log w @ map Backend bs1"
    by blast
  from start_previous_world [of "connected_state sched prev n f r" inner w1] obtain w1' bs2 where
    b: "start_previous (connected_state sched prev n f r) inner w1
          = complete_all (connected_state sched prev n f r) (inner_completions inner) w1'"
       "heap w1' = heap w1" "next_addr w1' = next_addr w1" "log w1' = log w1 @ map Backend bs2"
    by blast
  from a b have "log w1' = log w @ map Backend (bs1 @ bs2)" by simp
  moreover from a b have "heap w1' = heap w" "next_addr w1' = next_addr w" by simp_all
  moreover have "run_bulk sched prev n f r w
               = (case complete_all (connected_state sched prev n f r) (inner_completions inner) w1' of
                    Inl e \<Rightarrow> Inl e
                  | Inr (st, w2) \<Rightarrow> Inr (\<lparr>state = st, previous_operation_state = inner\<rparr>, w2))"
    using run_bulk_unfold [OF assms, of sched n f r] b(1) by simp
  ultimately show ?thesis by blast
qed

lemma run_bulk_none:
  assumes "connect_previous prev w = Inr (inner, w1)" and "inner_completions inner = []"
  shows "\<exists>op' w' pre. run_bulk sched prev n f r w = Inr (op', w')
           \<and> new_events w w' = map Backend pre
           \<and> heap w' = heap w \<and> next_addr w' = next_addr w
           \<and> arguments_data (state op') = None"
proof -
  from run_bulk_completions [OF assms(1), of sched n f r] obtain w1' bs where
    a: "heap w1' = heap w" "next_addr w1' = next_addr w" "log w1' = log w @ map Backend bs"
       "run_bulk sched prev n f r w
               = (case complete_all (connected_state sched prev n f r) (inner_completions inner) w1' of
                    Inl e \<Rightarrow> Inl e
                  | Inr (st, w2) \<Rightarrow> Inr (\<lparr>state = st, previous_operation_state = inner\<rparr>, w2))"
    by blast
  from a(4) assms(2) have "run_bulk sched prev n f r w
     = Inr (\<lparr>state = connected_state sched prev n f r, previous_operation_state = inner\<rparr>, w1')"
    by simp
  moreover from a(3) have "new_events w w1' = map Backend bs" by (rule new_events_append)
  ultimately show ?thesis using a(1,2) by (intro exI) auto
qed

lemma run_bulk_stopped:
  assumes "connect_previous prev w = Inr (inner, w1)"
      and "inner_completions inner = [PrevStopped]"
  shows "\<exists>op' w' pre. run_bulk sched prev n f r w = Inr (op', w')
           \<and> new_events w w' = map Backend pre @ [Received r SetStopped]
           \<and> heap w' = heap w \<and> next_addr w' = next_addr w
           \<and> arguments_data (state op') = None"
proof -
  from run_bulk_completions [OF assms(1), of sched n f r] obtain w1' bs where
    a: "heap w1' = heap w" "next_addr w1' = next_addr w" "log w1' = log w @ map Backend bs"
       "run_bulk sched prev n f r w
               = (case complete_all (connected_state sched prev n f r) (inner_completions inner) w1' of
                    Inl e \<Rightarrow> Inl e
                  | Inr (st, w2) \<Rightarrow> Inr (\<lparr>state = st, previous_operation_state = inner\<rparr>, w2))"
    by blast
  let ?w' = "emit (Received r SetStopped) w1'"
  from a(4) assms(2) have "run_bulk sched prev n f r w
     = Inr (\<lparr>state = connected_state sched prev n f r, previous_operation_state = inner\<rparr>, ?w')"
    by (auto simp: set_stopped_def set_error_def deliver_def)
  moreover from a(3) have "new_events w ?w' = map Backend bs @ [Received r SetStopped]"
    by (intro new_events_append) (simp add: emit_def)
  moreover have "heap ?w' = heap w" "next_addr ?w' = next_addr w"
    using a(1,2) by (simp_all add: emit_def)
  ultimately show ?thesis by (intro exI) auto
qed

lemma run_bulk_error:
  assumes "connect_previous prev w = Inr (inner, w1)"
      and "inner_completions inner = [PrevError e]"
  shows "\<exists>op' w' pre. run_bulk sched prev n f r w = Inr (op', w')
           \<and> new_events w w' = map Backend pre @ [Received r (SetError e)]
           \<and> heap w' = heap w \<and> next_addr w' = next_addr w
           \<and> arguments_data (state op') = None"
proof -
  from run_bulk_completions [OF assms(1), of sched n f r] obtain w1' bs where
    a: "heap w1' = heap w" "next_addr w1' = next_addr w" "log w1' = log w @ map Backend bs"
       "run_bulk sched prev n f r w
               = (case complete_all (connected_state sched prev n f r) (inner_completions inner) w1' of
                    Inl e \<Rightarrow> Inl e
                  | Inr (st, w2) \<Rightarrow> Inr (\<lparr>state = st, previous_operation_state = inner\<rparr>, w2))"
    by blast
  let ?w' = "emit (Received r (SetError e)) w1'"
  from a(4) assms(2) have "run_bulk sched prev n f r w
     = Inr (\<lparr>state = connected_state sched prev n f r, previous_operation_state = inner\<rparr>, ?w')"
    by (auto simp: set_stopped_def set_error_def deliver_def)
  moreover from a(3) have "new_events w ?w' = map Backend bs @ [Received r (SetError e)]"
    by (intro new_events_append) (simp add: emit_def)
  moreover have "heap ?w' = heap w" "next_addr ?w' = next_addr w"
    using a(1,2) by (simp_all add: emit_def)
  ultimately show ?thesis by (intro exI) auto
qed

lemma run_bulk_value_null:
  assumes "connect_previous prev w = Inr (inner, w1)"
      and "inner_completions inner = [PrevValue v]"
      and "scheduler_interface sched = None"
  shows "\<exists>op' w' pre. run_bulk sched prev n f r w = Inr (op', w')
           \<and> new_events w w' = map Backend pre @ [New (next_addr w) v]
           \<and> heap w' = (heap w)(next_addr w \<mapsto> v)
           \<and> arguments_data (state op') = Some (next_addr w)
           \<and> os_bulk (state op') = None"
proof -
  from run_bulk_completions [OF assms(1), of sched n f r] obtain w1' bs where
    a: "heap w1' = heap w" "next_addr w1' = next_addr w" "log w1' = log w @ map Backend bs"
       "run_bulk sched prev n f r w
               = (case complete_all (connected_state sched prev n f r) (inner_completions inner) w1' of
                    Inl e \<Rightarrow> Inl e
                  | Inr (st, w2) \<Rightarrow> Inr (\<lparr>state = st, previous_operation_state = inner\<rparr>, w2))"
    by blast
  let ?st = "connected_state sched prev n f r"
  let ?w' = "w1'\<lparr>heap := (heap w1')(next_addr w1' \<mapsto> v), next_addr := Suc (next_addr w1'),
              log := log w1' @ [New (next_addr w1') v]\<rparr>"
  have sv: "set_value ?st v w1' = Inr (?st\<lparr>arguments_data := Some (next_addr w1')\<rparr>, ?w')"
    by (rule set_value_null) (simp add: assms(3))
  from a(4) assms(2) sv have "run_bulk sched prev n f r w
     = Inr (\<lparr>state = ?st\<lparr>arguments_data := Some (next_addr w1')\<rparr>, previous_operation_state = inner\<rparr>, ?w')"
    by simp
  moreover from a(2,3) have "new_events w ?w' = map Backend bs @ [New (next_addr w) v]"
    by (intro new_events_append) simp
  moreover have "heap ?w' = (heap w)(next_addr w \<mapsto> v)"
    using a(1,2) by simp
  ultimately show ?thesis using a(2) by (intro exI) auto
qed

lemma run_bulk_value_valid:
  assumes "connect_previous prev w = Inr (inner, w1)"
      and "inner_completions inner = [PrevValue v]"
      and "scheduler_interface sched = Some self"
      and "bulk_impl self (word_of_int n) = Some sender"
      and "connect_impl sender = Some os"
  shows "\<exists>op' w' pre. run_bulk sched prev n f r w = Inr (op', w')
           \<and> new_events w w'
               = map Backend pre @ [New (next_addr w) v, Backend (BBulk (word_of_int n)),
                                    Backend BConnect, Backend BStart]
                   @ script_events r f v (script os)
           \<and> heap w' = (heap w)(next_addr w \<mapsto> fold f (call_indices (script os)) v)
           \<and> arguments_data (state op') = Some (next_addr w)
           \<and> os_bulk (state op') = Some os
           \<and> size_bulk (snd_bulk (state op')) = n"
proof -
  from run_bulk_completions [OF assms(1), of sched n f r] obtain w1' bs where
    a: "heap w1' = heap w" "next_addr w1' = next_addr w" "log w1' = log w @ map Backend bs"
       "run_bulk sched prev n f r w
               = (case complete_all (connected_state sched prev n f r) (inner_completions inner) w1' of
                    Inl e \<Rightarrow> Inl e
                  | Inr (st, w2) \<Rightarrow> Inr (\<lparr>state = st, previous_operation_state = inner\<rparr>, w2))"
    by blast
  let ?st = "connected_state sched prev n f r"
  let ?evs = "[New (next_addr w1') v, Backend (BBulk (word_of_int n)), Backend BConnect, Backend BStart]
                @ script_events r f v (script os)"
  let ?w' = "w1'\<lparr>heap := (heap w1')(next_addr w1' \<mapsto> fold f (call_indices (script os)) v),
              next_addr := Suc (next_addr w1'), log := log w1' @ ?evs\<rparr>"
  have sv: "set_value ?st v w1'
      = Inr (?st\<lparr>arguments_data := Some (next_addr w1'), os_bulk := Some os\<rparr>, ?w')"
    using set_value_valid [of ?st self sender os v w1'] assms(3-5) by simp
  from a(4) assms(2) sv have "run_bulk sched prev n f r w
     = Inr (\<lparr>state = ?st\<lparr>arguments_data := Some (next_addr w1'), os_bulk := Some os\<rparr>,
              previous_operation_state = inner\<rparr>, ?w')"
    by simp
  moreover from a(2,3) have "new_events w ?w'
       = map Backend bs @ [New (next_addr w) v, Backend (BBulk (word_of_int n)),
                                    Backend BConnect, Backend BStart]
                   @ script_events r f v (script os)"
    by (intro new_events_append) simp
  moreover have "heap ?w' = (heap w)(next_addr w \<mapsto> fold f (call_indices (script os)) v)"
    using a(1,2) by simp
  ultimately show ?thesis using a(2) by (intro exI) auto
qed

lemma log_fold_shim: "log (fold (receiver_shim r) cs w) = log w @ map (Received r) cs"
  by (induction cs arbitrary: w) (simp_all add: receiver_shim_def deliver_def emit_def)

lemma start_events:
  assumes "os_op op_v = Some os"
  shows "new_events w (start op_v w) = Backend BStart # map (Received (recv_op op_v)) (script os)"
  using assms by (simp add: start_def new_events_def log_fold_shim emit_def)

lemma connect_recv: "connect self r w = Inr (op_v, w1) \<Longrightarrow> recv_op op_v = r"
  by (auto simp: connect_def split: option.splits)

subsection \<open>Two concrete runs\<close>

text \<open>
  Connecting a bulk sender whose previous sender is a \<^verbatim>\<open>system_sender\<close> connects that
  sender at once, which calls into the backend.
\<close>

lemma bulk_connect_system_sender:
  "bulk_connect \<lparr>scheduler_impl = Some descending_backend,
                 previous = SystemSender
                              \<lparr>sender_impl = Some (SenderImpl (Some (OperationState [SetValue])))\<rparr>,
                 size_bulk = 2, fun_bulk = (\<lambda>i xs. xs)\<rparr> 9 empty_world
     = Inr (\<lparr>state = \<lparr>snd_bulk =
                         \<lparr>scheduler_impl = Some descending_backend,
                          previous = SystemSender
                              \<lparr>sender_impl = Some (SenderImpl (Some (OperationState [SetValue])))\<rparr>,
                          size_bulk = 2, fun_bulk = (\<lambda>i xs. xs)\<rparr>,
                       recv_bulk = 9, arguments_data = None, os_bulk = None\<rparr>,
             previous_operation_state =
               SystemOp \<lparr>snd_op = \<lparr>sender_impl = Some (SenderImpl (Some (OperationState [SetValue])))\<rparr>,
                         recv_op = BulkIntermediateReceiver,
                         os_op = Some (OperationState [SetValue])\<rparr>\<rparr>,
            \<lparr>heap = Map.empty, next_addr = 0, log = [Backend BConnect]\<rparr>)"
  by (simp add: bulk_connect_def connect_def emit_def)

text \<open>
  \<^verbatim>\<open>bulk(schedule(sched), 2, f)\<close> connected to receiver 9 and started, on the first
  backend: the previous operation state is started, its value completion (no values)
  allocates the buffer, the bulk work runs index 1 and index 0, and the receiver
  observes one value completion.
\<close>

lemma bulk_after_schedule:
  "run_bulk descending_scheduler
     (SystemSender \<lparr>sender_impl = Some (SenderImpl (Some (OperationState [SetValue])))\<rparr>)
     2 (\<lambda>i xs. xs) 9 empty_world
   = Inr (\<lparr>state = \<lparr>snd_bulk =
                         \<lparr>scheduler_impl = Some descending_backend,
                          previous = SystemSender
                              \<lparr>sender_impl = Some (SenderImpl (Some (OperationState [SetValue])))\<rparr>,
                          size_bulk = 2, fun_bulk = (\<lambda>i xs. xs)\<rparr>,
                       recv_bulk = 9, arguments_data = Some 0,
                       os_bulk = Some (OperationState [CallFn 1, CallFn 0, Complete SetValue])\<rparr>,
             previous_operation_state =
               SystemOp \<lparr>snd_op = \<lparr>sender_impl = Some (SenderImpl (Some (OperationState [SetValue])))\<rparr>,
                         recv_op = BulkIntermediateReceiver,
                         os_op = Some (OperationState [SetValue])\<rparr>\<rparr>,
          \<lparr>heap = [0 \<mapsto> []], next_addr = 1,
           log = [Backend BConnect, Backend BStart, New 0 [], Backend (BBulk 2), Backend BConnect,
                  Backend BStart, Invoke 1 [], Invoke 0 [], Received 9 SetValue]\<rparr>)"
  by (simp add: run_bulk_def bulk_def bulk_connect_def connect_def bulk_start_def set_value_def
      Let_def emit_def bulk_function_object_def receiver_shim_def deliver_def)

text \<open>
  The same short circuit when the previous sender is a \<^verbatim>\<open>system_sender\<close> whose backend
  work completes with stopped, or with an error: besides the prior stage's own connect
  and start, the only event is the receiver observing that completion.
\<close>

lemma bulk_short_circuit_after_schedule:
  "(\<exists>op' w'. run_bulk sched
                (SystemSender \<lparr>sender_impl = Some (SenderImpl (Some (OperationState [SetStopped])))\<rparr>)
                n f r w = Inr (op', w')
       \<and> new_events w w' = [Backend BConnect, Backend BStart, Received r SetStopped]
       \<and> heap w' = heap w \<and> next_addr w' = next_addr w
       \<and> arguments_data (state op') = None)
   \<and> (\<exists>op' w'. run_bulk sched
                (SystemSender \<lparr>sender_impl = Some (SenderImpl (Some (OperationState [SetError e])))\<rparr>)
                n f r w = Inr (op', w')
       \<and> new_events w w' = [Backend BConnect, Backend BStart, Received r (SetError e)]
       \<and> heap w' = heap w \<and> next_addr w' = next_addr w
       \<and> arguments_data (state op') = None)"
  by (simp add: run_bulk_def bulk_def bulk_connect_def connect_def bulk_start_def set_stopped_def
      set_error_def deliver_def emit_def new_events_def)

subsection \<open>The claims\<close>

text \<open>
  C1 (as amended). A started operation state delivers exactly one completion to its
  receiver when the backend's work objects exist and each delivers one completion:
  for single work, when the abstract operation state is not null and its \<open>start\<close>
  calls the shim once; for a bulk stage whose prior stage has been connected and
  delivers one completion, when that completion is stopped or an error, or when it is
  a value and the scheduler, the bulk work object and its operation state are not null
  and the bulk work completes once.
\<close>

theorem exactly_one_completion:
  "(connect self r w = Inr (op_v, w1) \<and> os_op op_v = Some os \<and> length (script os) = 1
      \<longrightarrow> (\<exists>c. received r (new_events w1 (start op_v w1)) = [c]))
   \<and> (connect_previous prev w = Inr (inner, w2) \<and> inner_completions inner = [c0]
       \<and> (case c0 of PrevValue v \<Rightarrow> bulk_completes_once sched n
                    | PrevStopped \<Rightarrow> True
                    | PrevError e \<Rightarrow> True)
      \<longrightarrow> (\<exists>op' w' c. run_bulk sched prev n f r' w = Inr (op', w')
                      \<and> received r' (new_events w w') = [c]))"
proof (intro conjI impI)
  assume a: "connect self r w = Inr (op_v, w1) \<and> os_op op_v = Some os \<and> length (script os) = 1"
  then have r: "recv_op op_v = r" by (blast dest: connect_recv)
  from a obtain c where c: "script os = [c]"
    by (cases "script os") simp_all
  from a have "new_events w1 (start op_v w1) = Backend BStart # map (Received r) (script os)"
    by (simp add: start_events r)
  then show "\<exists>c. received r (new_events w1 (start op_v w1)) = [c]"
    by (simp add: c)
next
  assume a: "connect_previous prev w = Inr (inner, w2) \<and> inner_completions inner = [c0]
       \<and> (case c0 of PrevValue v \<Rightarrow> bulk_completes_once sched n
                    | PrevStopped \<Rightarrow> True
                    | PrevError e \<Rightarrow> True)"
  then have cp: "connect_previous prev w = Inr (inner, w2)"
    and ic: "inner_completions inner = [c0]" by simp_all
  show "\<exists>op' w' c. run_bulk sched prev n f r' w = Inr (op', w')
                      \<and> received r' (new_events w w') = [c]"
  proof (cases c0)
    case (PrevValue v)
    with a have "bulk_completes_once sched n" by simp
    then obtain self sender os where
      b: "scheduler_interface sched = Some self" "bulk_impl self (word_of_int n) = Some sender"
         "connect_impl sender = Some os" and k: "length (completions_of (script os)) = 1"
      by (auto simp: bulk_completes_once_def split: option.splits)
    from k obtain c where c: "completions_of (script os) = [c]"
      by (cases "completions_of (script os)") simp_all
    from run_bulk_value_valid [OF cp ic [unfolded PrevValue] b, of f r']
    obtain op' w' pre where
      r: "run_bulk sched prev n f r' w = Inr (op', w')"
         "new_events w w'
               = map Backend pre @ [New (next_addr w) v, Backend (BBulk (word_of_int n)),
                                    Backend BConnect, Backend BStart]
                   @ script_events r' f v (script os)"
      by blast
    have "received r' (new_events w w') = [c]"
      unfolding r(2) by (simp add: received_append received_backend received_script c)
    with r(1) show ?thesis by blast
  next
    case PrevStopped
    from run_bulk_stopped [OF cp ic [unfolded PrevStopped], of sched n f r']
    obtain op' w' pre where
      r: "run_bulk sched prev n f r' w = Inr (op', w')"
         "new_events w w' = map Backend pre @ [Received r' SetStopped]"
      by blast
    have "received r' (new_events w w') = [SetStopped]"
      unfolding r(2) by (simp add: received_append received_backend)
    with r(1) show ?thesis by blast
  next
    case (PrevError e)
    from run_bulk_error [OF cp ic [unfolded PrevError], of sched n f r']
    obtain op' w' pre where
      r: "run_bulk sched prev n f r' w = Inr (op', w')"
         "new_events w w' = map Backend pre @ [Received r' (SetError e)]"
      by blast
    have "received r' (new_events w w') = [SetError e]"
      unfolding r(2) by (simp add: received_append received_backend)
    with r(1) show ?thesis by blast
  qed
qed

theorem exactly_one_completion_witness:
  "(connect \<lparr>sender_impl = Some (SenderImpl (Some (OperationState [SetValue])))\<rparr> (9::nat) empty_world
      = Inr (\<lparr>snd_op = \<lparr>sender_impl = Some (SenderImpl (Some (OperationState [SetValue])))\<rparr>,
               recv_op = 9, os_op = Some (OperationState [SetValue])\<rparr>,
             \<lparr>heap = Map.empty, next_addr = 0, log = [Backend BConnect]\<rparr>)
    \<and> length (script (OperationState [SetValue :: nat completion])) = 1
    \<and> (\<exists>c. received 9 (new_events \<lparr>heap = Map.empty, next_addr = 0, log = [Backend BConnect]\<rparr>
               (start \<lparr>snd_op = \<lparr>sender_impl = Some (SenderImpl (Some (OperationState [SetValue])))\<rparr>,
                        recv_op = 9, os_op = Some (OperationState [SetValue])\<rparr>
                      \<lparr>heap = Map.empty, next_addr = 0,
                       log = ([Backend BConnect] :: (nat, nat) event list)\<rparr>)) = [c]))
   \<and> (connect_previous (OtherSender [PrevValue [7]]) empty_world
          = Inr (OtherOp [PrevValue [7]], empty_world)
    \<and> inner_completions (OtherOp [PrevValue [7::nat]] :: (nat, nat) inner_op_state)
          = [PrevValue [7]]
    \<and> bulk_completes_once descending_scheduler 2
    \<and> (\<exists>op' w' c. run_bulk descending_scheduler (OtherSender [PrevValue [7]]) 2 (\<lambda>i xs. xs) 9
                       empty_world = Inr (op', w')
                      \<and> received 9 (new_events empty_world w') = [c]))"
proof -
  let ?snd = "\<lparr>sender_impl = Some (SenderImpl (Some (OperationState [SetValue :: nat completion])))\<rparr>"
  let ?op = "\<lparr>snd_op = ?snd, recv_op = 9::nat, os_op = Some (OperationState [SetValue])\<rparr>"
  let ?w1 = "\<lparr>heap = Map.empty, next_addr = 0, log = ([Backend BConnect] :: (nat, nat) event list)\<rparr>"
  have c: "connect ?snd (9::nat) empty_world = Inr (?op, ?w1)"
    by (simp add: connect_def emit_def)
  have l: "length (script (OperationState [SetValue :: nat completion])) = 1" by simp
  have o: "os_op ?op = Some (OperationState [SetValue])" by simp
  have cp: "connect_previous (OtherSender [PrevValue [7]]) empty_world
          = Inr (OtherOp [PrevValue [7]], empty_world)"
    by simp
  have ic: "inner_completions (OtherOp [PrevValue [7::nat]] :: (nat, nat) inner_op_state)
          = [PrevValue [7]]"
    by simp
  have ok: "bulk_completes_once descending_scheduler 2"
    by (simp add: bulk_completes_once_def)
  have v: "(case PrevValue [7::nat] of PrevValue v \<Rightarrow> bulk_completes_once descending_scheduler 2
                 | PrevStopped \<Rightarrow> True | PrevError (e::nat) \<Rightarrow> True)"
    using ok by simp
  from exactly_one_completion
         [where self = ?snd and r = 9 and w = empty_world and op_v = ?op and ?w1.0 = ?w1
            and os = "OperationState [SetValue]" and prev = "OtherSender [PrevValue [7]]"
            and inner = "OtherOp [PrevValue [7]]" and ?w2.0 = empty_world
            and ?c0.0 = "PrevValue [7]"
            and sched = descending_scheduler and n = 2 and f = "\<lambda>i xs. xs" and r' = 9]
  have "(\<exists>c. received 9 (new_events ?w1 (start ?op ?w1)) = [c])"
    and "(\<exists>op' w' c. run_bulk descending_scheduler (OtherSender [PrevValue [7]]) 2 (\<lambda>i xs. xs) 9
                       empty_world = Inr (op', w')
                      \<and> received 9 (new_events empty_world w') = [c])"
    using c l o cp ic v by blast+
  with c l cp ic ok show ?thesis by blast
qed

text \<open>
  As first stated, for every started operation state, exactly-once fails: a single-work
  sender whose backend \<open>connect\<close> returns null is connected to receiver 9 and started,
  and the receiver has observed no completion at all.
\<close>

theorem exactly_one_completion_counterexample:
  "connect \<lparr>sender_impl = Some (SenderImpl None)\<rparr> (9::nat) empty_world
     = Inr (\<lparr>snd_op = \<lparr>sender_impl = Some (SenderImpl None)\<rparr>, recv_op = 9, os_op = None\<rparr>,
            \<lparr>heap = Map.empty, next_addr = 0, log = [Backend BConnect]\<rparr>)
   \<and> received 9 (log (start \<lparr>snd_op = \<lparr>sender_impl = Some (SenderImpl None)\<rparr>,
                               recv_op = 9, os_op = None\<rparr>
                        \<lparr>heap = Map.empty, next_addr = 0,
                         log = ([Backend BConnect] :: (nat, nat) event list)\<rparr>)) = []"
  by (simp add: connect_def start_def emit_def)

text \<open>
  C2, at an input where the code does not do what the claim says: a bulk stage of size 2
  whose scheduler pointer is null, after a prior stage that completes with the value 7,
  connected to receiver 9 and started. \<open>set_value\<close> allocates the buffer, finds the
  scheduler null and returns: the per-index function is called for no index and the
  receiver observes no completion.
\<close>

theorem bulk_fan_out_dropped:
  "run_bulk \<lparr>scheduler_interface = None\<rparr> (OtherSender [PrevValue [7]]) 2 (\<lambda>i xs. xs) 9 empty_world
     = Inr (\<lparr>state = \<lparr>snd_bulk = \<lparr>scheduler_impl = None, previous = OtherSender [PrevValue [7]],
                                  size_bulk = 2, fun_bulk = (\<lambda>i xs. xs)\<rparr>,
                       recv_bulk = 9, arguments_data = Some 0, os_bulk = None\<rparr>,
             previous_operation_state = OtherOp [PrevValue [7]]\<rparr>,
            \<lparr>heap = [0 \<mapsto> [7]], next_addr = 1, log = [New 0 [7]]\<rparr>)
   \<and> invocations [New 0 [7] :: (nat, nat) event] = []
   \<and> received 9 [New 0 [7] :: (nat, nat) event] = []"
  by (simp add: run_bulk_def bulk_def bulk_connect_def bulk_start_def set_value_def Let_def emit_def)

text \<open>
  C3. A bulk stage whose prior stage completes with stopped, or with an error \<open>e\<close>:
  for any backend whatsoever the run returns, and the only event is the receiver
  observing stopped, respectively the error \<open>e\<close> itself. The per-index function is never
  called, no buffer is allocated (the heap is as before and the state's buffer pointer
  is still null), and nothing is tried again.
\<close>

theorem bulk_short_circuit:
  "(\<exists>op' w'. run_bulk sched (OtherSender [PrevStopped]) n f r w = Inr (op', w')
       \<and> new_events w w' = [Received r SetStopped]
       \<and> invocations (new_events w w') = []
       \<and> allocations (new_events w w') = []
       \<and> heap w' = heap w \<and> next_addr w' = next_addr w
       \<and> arguments_data (state op') = None)
   \<and> (\<exists>op' w'. run_bulk sched (OtherSender [PrevError e]) n f r w = Inr (op', w')
       \<and> new_events w w' = [Received r (SetError e)]
       \<and> invocations (new_events w w') = []
       \<and> allocations (new_events w w') = []
       \<and> heap w' = heap w \<and> next_addr w' = next_addr w
       \<and> arguments_data (state op') = None)"
  by (simp add: run_bulk_def bulk_def bulk_connect_def bulk_start_def set_stopped_def
      set_error_def deliver_def new_events_emit)
     (simp add: emit_def)

text \<open>
  C4 (as amended). \<open>bulk\<close> is pure construction: it stores its four arguments and leaves
  the world as it is, for every handle (also one with a null pointer). \<open>schedule\<close> on a
  handle with a backend makes exactly one call into the backend, \<open>schedule()\<close> of the
  abstract scheduler, whose result is the abstract sender it wraps; it connects nothing,
  starts nothing and allocates nothing.
\<close>

theorem construction_effects:
  "bulk sched prev n f w
     = (\<lparr>scheduler_impl = scheduler_interface sched, previous = prev, size_bulk = n,
         fun_bulk = f\<rparr>, w)
   \<and> (scheduler_interface sched = Some self
        \<longrightarrow> schedule sched w
              = Inr (\<lparr>sender_impl = schedule_impl self\<rparr>, w\<lparr>log := log w @ [Backend BSchedule]\<rparr>)
          \<and> new_events w (w\<lparr>log := log w @ [Backend BSchedule]\<rparr>) = [Backend BSchedule])"
  by (simp add: bulk_def schedule_def emit_def new_events_def)

theorem construction_effects_witness:
  "scheduler_interface descending_scheduler = Some descending_backend
   \<and> bulk descending_scheduler (OtherSender [PrevValue [7::nat]]) 2 (\<lambda>i xs. xs) empty_world
     = (\<lparr>scheduler_impl = Some descending_backend, previous = OtherSender [PrevValue [7]],
         size_bulk = 2, fun_bulk = (\<lambda>i xs. xs)\<rparr>, empty_world)
   \<and> schedule descending_scheduler empty_world
     = Inr (\<lparr>sender_impl = Some (SenderImpl (Some (OperationState [SetValue])))\<rparr>,
            \<lparr>heap = Map.empty, next_addr = 0, log = [Backend BSchedule]\<rparr>)"
  using construction_effects
    [where sched = descending_scheduler and prev = "OtherSender [PrevValue [7::nat]]" and n = 2
       and f = "\<lambda>i xs. xs" and w = empty_world and self = descending_backend]
  by simp

text \<open>
  As first stated, with \<open>schedule\<close> making no call into the backend, the property fails:
  on a handle with a backend, \<open>schedule\<close> calls the backend's \<open>schedule()\<close> at once, before
  anything is connected or started.
\<close>

theorem schedule_is_pure_counterexample:
  "schedule descending_scheduler empty_world
     = Inr (\<lparr>sender_impl = Some (SenderImpl (Some (OperationState [SetValue])))\<rparr>,
            \<lparr>heap = Map.empty, next_addr = 0, log = [Backend BSchedule]\<rparr>)"
  by (simp add: schedule_def emit_def)

text \<open>
  C5. A connected single-work operation state whose abstract operation state is null
  (the backend's \<open>connect\<close> produced no work object): \<open>start\<close> leaves the world as it
  is, so it adds no event at all, the receiver has observed exactly what it had observed
  before, and nothing is reported as an error.
\<close>

theorem start_null_os_is_noop:
  assumes "connect self r w = Inr (op_v, w')" and "os_op op_v = None"
  shows "start op_v w' = w'
       \<and> new_events w' (start op_v w') = []
       \<and> received r (log (start op_v w')) = received r (log w')"
  using assms by (simp add: start_def new_events_def)

theorem start_null_os_is_noop_witness:
  "connect \<lparr>sender_impl = Some (SenderImpl None)\<rparr> (7::nat)
     \<lparr>heap = Map.empty, next_addr = 0, log = ([] :: (nat, nat) event list)\<rparr>
     = Inr (\<lparr>snd_op = \<lparr>sender_impl = Some (SenderImpl None)\<rparr>, recv_op = 7, os_op = None\<rparr>,
            \<lparr>heap = Map.empty, next_addr = 0, log = [Backend BConnect]\<rparr>)
   \<and> log (start \<lparr>snd_op = \<lparr>sender_impl = Some (SenderImpl None)\<rparr>, recv_op = 7, os_op = None\<rparr>
            \<lparr>heap = Map.empty, next_addr = 0, log = ([Backend BConnect] :: (nat, nat) event list)\<rparr>)
     = [Backend BConnect]"
proof -
  have c: "connect \<lparr>sender_impl = Some (SenderImpl None)\<rparr> (7::nat)
     \<lparr>heap = Map.empty, next_addr = 0, log = ([] :: (nat, nat) event list)\<rparr>
     = Inr (\<lparr>snd_op = \<lparr>sender_impl = Some (SenderImpl None)\<rparr>, recv_op = 7, os_op = None\<rparr>,
            \<lparr>heap = Map.empty, next_addr = 0, log = [Backend BConnect]\<rparr>)"
    by (simp add: connect_def emit_def)
  show ?thesis
    using c start_null_os_is_noop [OF c] by simp
qed

text \<open>
  C6 (as amended). For every bulk stage whose prior stage has been connected and
  delivers at most one completion. If that completion is a value and the backend returns
  a bulk work object and an operation state that are not null: the run returns; before
  the allocation of the buffer there are only calls into the backend; no other buffer is
  allocated; every call that the backend makes through the function object comes after
  the allocation and reaches the per-index function (the buffer is there each time); and
  when the run is over the state still points to the buffer and the buffer is still
  allocated. It is never released. If the completion is a value and the scheduler is
  null, the buffer is allocated and likewise still allocated at the end. If the prior
  stage completes with stopped or an error, or not at all, no buffer is allocated.
\<close>

theorem argument_buffer_lifetime:
  assumes "connect_previous prev w = Inr (inner, w1)"
  shows "(inner_completions inner = [PrevValue v] \<and> scheduler_interface sched = Some self
            \<and> bulk_impl self (word_of_int n) = Some sender \<and> connect_impl sender = Some os
          \<longrightarrow> (\<exists>op' w' pre evs. run_bulk sched prev n f r w = Inr (op', w')
                 \<and> new_events w w' = map Backend pre @ New (next_addr w) v # evs
                 \<and> allocations evs = []
                 \<and> map fst (invocations evs) = call_indices (script os)
                 \<and> arguments_data (state op') = Some (next_addr w)
                 \<and> heap w' (next_addr w) \<noteq> None))
       \<and> (inner_completions inner = [PrevValue v] \<and> scheduler_interface sched = None
          \<longrightarrow> (\<exists>op' w' pre. run_bulk sched prev n f r w = Inr (op', w')
                 \<and> new_events w w' = map Backend pre @ [New (next_addr w) v]
                 \<and> arguments_data (state op') = Some (next_addr w)
                 \<and> heap w' (next_addr w) \<noteq> None))
       \<and> (inner_completions inner = [] \<or> inner_completions inner = [PrevStopped]
            \<or> inner_completions inner = [PrevError e]
          \<longrightarrow> (\<exists>op' w'. run_bulk sched prev n f r w = Inr (op', w')
                 \<and> allocations (new_events w w') = []
                 \<and> heap w' = heap w \<and> next_addr w' = next_addr w
                 \<and> arguments_data (state op') = None))"
proof (intro conjI impI)
  assume a: "inner_completions inner = [PrevValue v] \<and> scheduler_interface sched = Some self
            \<and> bulk_impl self (word_of_int n) = Some sender \<and> connect_impl sender = Some os"
  then have ic: "inner_completions inner = [PrevValue v]"
    and b: "scheduler_interface sched = Some self" "bulk_impl self (word_of_int n) = Some sender"
           "connect_impl sender = Some os"
    by simp_all
  from run_bulk_value_valid [OF assms ic b, of f r] obtain op' w' pre where
    r: "run_bulk sched prev n f r w = Inr (op', w')"
       "new_events w w'
               = map Backend pre @ [New (next_addr w) v, Backend (BBulk (word_of_int n)),
                                    Backend BConnect, Backend BStart]
                   @ script_events r f v (script os)"
       "heap w' = (heap w)(next_addr w \<mapsto> fold f (call_indices (script os)) v)"
       "arguments_data (state op') = Some (next_addr w)"
    by blast
  let ?evs = "[Backend (BBulk (word_of_int n)), Backend BConnect, Backend BStart]
                   @ script_events r f v (script os)"
  have 1: "new_events w w' = map Backend pre @ New (next_addr w) v # ?evs"
    using r(2) by simp
  have 2: "allocations ?evs = []" by (simp add: allocations_script)
  have 3: "map fst (invocations ?evs) = call_indices (script os)"
    by (simp add: invocations_script map_fst_seen)
  have 4: "heap w' (next_addr w) \<noteq> None" by (simp add: r(3))
  from r(1) 1 2 3 r(4) 4
  show "\<exists>op' w' pre evs. run_bulk sched prev n f r w = Inr (op', w')
                 \<and> new_events w w' = map Backend pre @ New (next_addr w) v # evs
                 \<and> allocations evs = []
                 \<and> map fst (invocations evs) = call_indices (script os)
                 \<and> arguments_data (state op') = Some (next_addr w)
                 \<and> heap w' (next_addr w) \<noteq> None"
    by blast
next
  assume a: "inner_completions inner = [PrevValue v] \<and> scheduler_interface sched = None"
  then have ic: "inner_completions inner = [PrevValue v]"
    and b: "scheduler_interface sched = None" by simp_all
  from run_bulk_value_null [OF assms ic b, of n f r] obtain op' w' pre where
    r: "run_bulk sched prev n f r w = Inr (op', w')"
       "new_events w w' = map Backend pre @ [New (next_addr w) v]"
       "heap w' = (heap w)(next_addr w \<mapsto> v)"
       "arguments_data (state op') = Some (next_addr w)"
    by blast
  have "heap w' (next_addr w) \<noteq> None" by (simp add: r(3))
  with r(1,2,4)
  show "\<exists>op' w' pre. run_bulk sched prev n f r w = Inr (op', w')
                 \<and> new_events w w' = map Backend pre @ [New (next_addr w) v]
                 \<and> arguments_data (state op') = Some (next_addr w)
                 \<and> heap w' (next_addr w) \<noteq> None"
    by blast
next
  assume "inner_completions inner = [] \<or> inner_completions inner = [PrevStopped]
            \<or> inner_completions inner = [PrevError e]"
  then consider (none) "inner_completions inner = []"
    | (stopped) "inner_completions inner = [PrevStopped]"
    | (error) "inner_completions inner = [PrevError e]"
    by blast
  then show "\<exists>op' w'. run_bulk sched prev n f r w = Inr (op', w')
                 \<and> allocations (new_events w w') = []
                 \<and> heap w' = heap w \<and> next_addr w' = next_addr w
                 \<and> arguments_data (state op') = None"
  proof cases
    case none
    from run_bulk_none [OF assms none, of sched n f r] obtain op' w' pre where
      r: "run_bulk sched prev n f r w = Inr (op', w')" "new_events w w' = map Backend pre"
         "heap w' = heap w" "next_addr w' = next_addr w" "arguments_data (state op') = None"
      by blast
    have "allocations (new_events w w') = []"
      unfolding r(2) by (simp add: allocations_backend)
    with r(1,3,4,5) show ?thesis by blast
  next
    case stopped
    from run_bulk_stopped [OF assms stopped, of sched n f r] obtain op' w' pre where
      r: "run_bulk sched prev n f r w = Inr (op', w')"
         "new_events w w' = map Backend pre @ [Received r SetStopped]"
         "heap w' = heap w" "next_addr w' = next_addr w" "arguments_data (state op') = None"
      by blast
    have "allocations (new_events w w') = []"
      unfolding r(2) by (simp add: allocations_append allocations_backend)
    with r(1,3,4,5) show ?thesis by blast
  next
    case error
    from run_bulk_error [OF assms error, of sched n f r] obtain op' w' pre where
      r: "run_bulk sched prev n f r w = Inr (op', w')"
         "new_events w w' = map Backend pre @ [Received r (SetError e)]"
         "heap w' = heap w" "next_addr w' = next_addr w" "arguments_data (state op') = None"
      by blast
    have "allocations (new_events w w') = []"
      unfolding r(2) by (simp add: allocations_append allocations_backend)
    with r(1,3,4,5) show ?thesis by blast
  qed
qed

theorem argument_buffer_lifetime_witness:
  "connect_previous (OtherSender [PrevValue [7]]) empty_world
      = Inr (OtherOp [PrevValue [7]], empty_world)
   \<and> inner_completions (OtherOp [PrevValue [7::nat]] :: (nat, nat) inner_op_state) = [PrevValue [7]]
   \<and> scheduler_interface descending_scheduler = Some descending_backend
   \<and> bulk_impl descending_backend (word_of_int 2)
       = Some (SenderImpl (Some (OperationState [CallFn 1, CallFn 0, Complete SetValue])))
   \<and> (\<exists>op' w' pre evs.
         run_bulk descending_scheduler (OtherSender [PrevValue [7]]) 2 (\<lambda>i xs. xs) 9 empty_world
           = Inr (op', w')
       \<and> new_events empty_world w' = map Backend pre @ New (next_addr empty_world) [7] # evs
       \<and> allocations evs = []
       \<and> map fst (invocations evs)
           = call_indices (script (OperationState [CallFn 1, CallFn 0, Complete (SetValue :: nat completion)]))
       \<and> arguments_data (state op') = Some (next_addr empty_world)
       \<and> heap w' (next_addr empty_world) \<noteq> None)
   \<and> (\<exists>op' w' pre.
         run_bulk \<lparr>scheduler_interface = None\<rparr> (OtherSender [PrevValue [7]]) 2 (\<lambda>i xs. xs) 9
           empty_world = Inr (op', w')
       \<and> new_events empty_world w' = map Backend pre @ [New (next_addr empty_world) [7]]
       \<and> arguments_data (state op') = Some (next_addr empty_world)
       \<and> heap w' (next_addr empty_world) \<noteq> None)
   \<and> connect_previous (OtherSender [PrevStopped]) empty_world
      = Inr (OtherOp [PrevStopped], empty_world)
   \<and> (\<exists>op' w'.
         run_bulk descending_scheduler (OtherSender [PrevStopped]) 2 (\<lambda>i xs. xs) 9 empty_world
           = Inr (op', w')
       \<and> allocations (new_events empty_world w') = []
       \<and> heap w' = heap empty_world \<and> next_addr w' = next_addr empty_world
       \<and> arguments_data (state op') = None)"
proof -
  let ?os = "OperationState [CallFn 1, CallFn 0, Complete (SetValue :: nat completion)]"
  have cp: "connect_previous (OtherSender [PrevValue [7]]) empty_world
      = Inr (OtherOp [PrevValue [7]], empty_world)"
    by simp
  have ic: "inner_completions (OtherOp [PrevValue [7::nat]] :: (nat, nat) inner_op_state)
      = [PrevValue [7]]"
    by simp
  have s: "scheduler_interface descending_scheduler = Some descending_backend" by simp
  have b: "bulk_impl descending_backend (word_of_int 2) = Some (SenderImpl (Some ?os))" by simp
  have c: "connect_impl (SenderImpl (Some ?os)) = Some ?os" by simp
  have sn: "scheduler_interface \<lparr>scheduler_interface = None :: nat exec_system_scheduler option\<rparr> = None"
    by simp
  have cpS: "connect_previous (OtherSender [PrevStopped]) empty_world
      = Inr (OtherOp [PrevStopped], empty_world)"
    by simp
  have icS: "inner_completions (OtherOp [PrevStopped] :: (nat, nat) inner_op_state) = []
       \<or> inner_completions (OtherOp [PrevStopped] :: (nat, nat) inner_op_state) = [PrevStopped]
       \<or> inner_completions (OtherOp [PrevStopped] :: (nat, nat) inner_op_state) = [PrevError 0]"
    by simp
  from argument_buffer_lifetime [OF cp,
         where v = "[7]" and sched = descending_scheduler and self = descending_backend
           and n = 2 and sender = "SenderImpl (Some ?os)" and os = ?os
           and f = "\<lambda>i xs. xs" and r = 9 and e = 0]
  have 1: "\<exists>op' w' pre evs.
         run_bulk descending_scheduler (OtherSender [PrevValue [7]]) 2 (\<lambda>i xs. xs) 9 empty_world
           = Inr (op', w')
       \<and> new_events empty_world w' = map Backend pre @ New (next_addr empty_world) [7] # evs
       \<and> allocations evs = []
       \<and> map fst (invocations evs) = call_indices (script ?os)
       \<and> arguments_data (state op') = Some (next_addr empty_world)
       \<and> heap w' (next_addr empty_world) \<noteq> None"
    using ic s b c by blast
  from argument_buffer_lifetime [OF cp,
         where v = "[7]" and sched = "\<lparr>scheduler_interface = None\<rparr>" and self = descending_backend
           and n = 2 and sender = "SenderImpl (Some ?os)" and os = ?os
           and f = "\<lambda>i xs. xs" and r = 9 and e = 0]
  have 2: "\<exists>op' w' pre.
         run_bulk \<lparr>scheduler_interface = None\<rparr> (OtherSender [PrevValue [7]]) 2 (\<lambda>i xs. xs) 9
           empty_world = Inr (op', w')
       \<and> new_events empty_world w' = map Backend pre @ [New (next_addr empty_world) [7]]
       \<and> arguments_data (state op') = Some (next_addr empty_world)
       \<and> heap w' (next_addr empty_world) \<noteq> None"
    using ic sn by blast
  from argument_buffer_lifetime [OF cpS,
         where v = "[7]" and sched = descending_scheduler and self = descending_backend
           and n = 2 and sender = "SenderImpl (Some ?os)" and os = ?os
           and f = "\<lambda>i xs. xs" and r = 9 and e = 0]
  have 3: "\<exists>op' w'.
         run_bulk descending_scheduler (OtherSender [PrevStopped]) 2 (\<lambda>i xs. xs) 9 empty_world
           = Inr (op', w')
       \<and> allocations (new_events empty_world w') = []
       \<and> heap w' = heap empty_world \<and> next_addr w' = next_addr empty_world
       \<and> arguments_data (state op') = None"
    using icS by blast
  from cp ic s b 1 2 cpS 3 show ?thesis by (intro conjI)
qed

text \<open>
  As first stated, with the buffer released once all indices have run, the property
  fails: after a bulk stage of size 2 has run both indices and the receiver has observed
  the completion, the buffer is still on the heap and the state still points to it.
\<close>

theorem buffer_released_counterexample:
  "run_bulk descending_scheduler (OtherSender [PrevValue [7]]) 2 (\<lambda>i xs. xs) 9 empty_world
     = Inr (\<lparr>state = \<lparr>snd_bulk = \<lparr>scheduler_impl = Some descending_backend,
                                  previous = OtherSender [PrevValue [7]], size_bulk = 2,
                                  fun_bulk = (\<lambda>i xs. xs)\<rparr>,
                       recv_bulk = 9, arguments_data = Some 0,
                       os_bulk = Some (OperationState [CallFn 1, CallFn 0, Complete SetValue])\<rparr>,
             previous_operation_state = OtherOp [PrevValue [7]]\<rparr>,
            \<lparr>heap = [0 \<mapsto> [7]], next_addr = 1,
             log = [New 0 [7], Backend (BBulk 2), Backend BConnect, Backend BStart,
                    Invoke 1 [7], Invoke 0 [7], Received 9 SetValue]\<rparr>)
   \<and> [0 \<mapsto> [7::nat]] (0::nat) = Some [7]"
  by (simp add: run_bulk_def bulk_def bulk_connect_def bulk_start_def set_value_def Let_def
      emit_def bulk_function_object_def receiver_shim_def deliver_def)

text \<open>
  C7 (as amended). A bulk stage whose prior stage has been connected and completes with
  the values \<open>v\<close>, on a backend whose bulk work object and operation state are not null,
  whatever calls that backend makes: the run returns; there is one call of the per-index
  function for each call the backend makes, in the same order, and each is handed the
  elements of the one buffer that the value completion allocated and stored in the bulk
  state; this layer writes that buffer once, when it allocates it. What a call finds
  there is what the calls before it left: if the function does not write to its
  arguments, every call finds \<open>v\<close>, and the buffer still holds \<open>v\<close> at the end.
\<close>

theorem bulk_arguments_shared:
  assumes "connect_previous prev w = Inr (inner, w1)"
      and "inner_completions inner = [PrevValue v]"
      and "scheduler_interface sched = Some self"
      and "bulk_impl self (word_of_int n) = Some sender"
      and "connect_impl sender = Some os"
  shows "\<exists>op' w'. run_bulk sched prev n f r w = Inr (op', w')
       \<and> invocations (new_events w w') = seen f (call_indices (script os)) v
       \<and> allocations (new_events w w') = [(next_addr w, v)]
       \<and> arguments_data (state op') = Some (next_addr w)
       \<and> heap w' (next_addr w) = Some (fold f (call_indices (script os)) v)
       \<and> ((\<forall>i xs. f i xs = xs)
            \<longrightarrow> invocations (new_events w w') = map (\<lambda>i. (i, v)) (call_indices (script os))
              \<and> heap w' (next_addr w) = Some v)"
proof -
  from run_bulk_value_valid [OF assms, of f r] obtain op' w' pre where
    r: "run_bulk sched prev n f r w = Inr (op', w')"
       "new_events w w'
               = map Backend pre @ [New (next_addr w) v, Backend (BBulk (word_of_int n)),
                                    Backend BConnect, Backend BStart]
                   @ script_events r f v (script os)"
       "heap w' = (heap w)(next_addr w \<mapsto> fold f (call_indices (script os)) v)"
       "arguments_data (state op') = Some (next_addr w)"
    by blast
  have 1: "invocations (new_events w w') = seen f (call_indices (script os)) v"
    unfolding r(2) by (simp add: invocations_append invocations_backend invocations_script)
  have 2: "allocations (new_events w w') = [(next_addr w, v)]"
    unfolding r(2) by (simp add: allocations_append allocations_backend allocations_script)
  have 3: "heap w' (next_addr w) = Some (fold f (call_indices (script os)) v)"
    by (simp add: r(3))
  have 4: "(\<forall>i xs. f i xs = xs)
            \<longrightarrow> invocations (new_events w w') = map (\<lambda>i. (i, v)) (call_indices (script os))
              \<and> heap w' (next_addr w) = Some v"
    using 1 3 by (simp add: seen_unchanged fold_unchanged)
  from r(1) 1 2 r(4) 3 4 show ?thesis by blast
qed

theorem bulk_arguments_shared_witness:
  "connect_previous (OtherSender [PrevValue [7]]) empty_world
      = Inr (OtherOp [PrevValue [7]], empty_world)
   \<and> inner_completions (OtherOp [PrevValue [7::nat]] :: (nat, nat) inner_op_state) = [PrevValue [7]]
   \<and> scheduler_interface descending_scheduler = Some descending_backend
   \<and> bulk_impl descending_backend (word_of_int 2)
       = Some (SenderImpl (Some (OperationState [CallFn 1, CallFn 0, Complete SetValue])))
   \<and> (\<forall>i xs. (\<lambda>(i::long) (xs::nat list). xs) i xs = xs)
   \<and> (\<exists>op' w'.
         run_bulk descending_scheduler (OtherSender [PrevValue [7]]) 2 (\<lambda>i xs. xs) 9 empty_world
           = Inr (op', w')
       \<and> invocations (new_events empty_world w') = [(1, [7]), (0, [7])]
       \<and> allocations (new_events empty_world w') = [(0, [7])]
       \<and> arguments_data (state op') = Some 0
       \<and> heap w' 0 = Some [7])"
proof -
  let ?os = "OperationState [CallFn 1, CallFn 0, Complete (SetValue :: nat completion)]"
  have cp: "connect_previous (OtherSender [PrevValue [7]]) empty_world
      = Inr (OtherOp [PrevValue [7]], empty_world)"
    by simp
  have ic: "inner_completions (OtherOp [PrevValue [7::nat]] :: (nat, nat) inner_op_state)
      = [PrevValue [7]]"
    by simp
  have s: "scheduler_interface descending_scheduler = Some descending_backend" by simp
  have b: "bulk_impl descending_backend (word_of_int 2) = Some (SenderImpl (Some ?os))" by simp
  have c: "connect_impl (SenderImpl (Some ?os)) = Some ?os" by simp
  have u: "\<forall>i xs. (\<lambda>(i::long) (xs::nat list). xs) i xs = xs" by simp
  from bulk_arguments_shared [OF cp ic s b c, of "\<lambda>i xs. xs" 9]
  have "\<exists>op' w'.
         run_bulk descending_scheduler (OtherSender [PrevValue [7]]) 2 (\<lambda>i xs. xs) 9 empty_world
           = Inr (op', w')
       \<and> invocations (new_events empty_world w') = [(1, [7]), (0, [7])]
       \<and> allocations (new_events empty_world w') = [(0, [7])]
       \<and> arguments_data (state op') = Some 0
       \<and> heap w' 0 = Some [7]"
    by simp blast
  with cp ic s b u show ?thesis by (intro conjI)
qed

text \<open>
  As first stated, with every invocation observing the values of the prior stage and the
  buffer written only by the value completion, the property fails for a per-index
  function that takes its arguments by reference and adds one to each: after the prior
  stage completes with 7, the call at index 1 finds 7, the call at index 0 finds 8, and
  the buffer holds 9 at the end.
\<close>

theorem identical_values_counterexample:
  "run_bulk descending_scheduler (OtherSender [PrevValue [7]]) 2 (\<lambda>i xs. map Suc xs) 9 empty_world
     = Inr (\<lparr>state = \<lparr>snd_bulk = \<lparr>scheduler_impl = Some descending_backend,
                                  previous = OtherSender [PrevValue [7]], size_bulk = 2,
                                  fun_bulk = (\<lambda>i xs. map Suc xs)\<rparr>,
                       recv_bulk = 9, arguments_data = Some 0,
                       os_bulk = Some (OperationState [CallFn 1, CallFn 0, Complete SetValue])\<rparr>,
             previous_operation_state = OtherOp [PrevValue [7]]\<rparr>,
            \<lparr>heap = [0 \<mapsto> [9]], next_addr = 1,
             log = [New 0 [7], Backend (BBulk 2), Backend BConnect, Backend BStart,
                    Invoke 1 [7], Invoke 0 [8], Received 9 SetValue]\<rparr>)
   \<and> invocations [New 0 [7], Backend (BBulk 2), Backend BConnect, Backend BStart,
                    Invoke 1 [7], Invoke 0 [8], Received 9 (SetValue :: nat completion)]
       = [(1, [7::nat]), (0, [8])]"
  by (simp add: run_bulk_def bulk_def bulk_connect_def bulk_start_def set_value_def Let_def
      emit_def bulk_function_object_def receiver_shim_def deliver_def)

text \<open>
  C8. Equality of scheduler handles with non-null pointers, with the backend's
  \<open>equals\<close> as the spec describes it: it is the identity of the scheduler objects; it is
  reflexive, symmetric and transitive; two handles obtained from the same execution
  context are equal; handles obtained from contexts whose backends are distinct objects
  are unequal.
\<close>

theorem scheduler_equality:
  assumes "scheduler_interface a = Some ia" and "scheduler_interface b = Some ib"
      and "scheduler_interface c = Some ic" and "scheduler_interface d = Some id'"
  shows "scheduler_eq a b = Inr (sched_addr ia = sched_addr ib)
       \<and> scheduler_eq a a = Inr True
       \<and> scheduler_eq a b = scheduler_eq b a
       \<and> (scheduler_eq a b = Inr True \<and> scheduler_eq b c = Inr True
            \<longrightarrow> scheduler_eq a c = Inr True)
       \<and> (get_scheduler ctx = Inr a \<and> get_scheduler ctx = Inr b
            \<longrightarrow> scheduler_eq a b = Inr True)
       \<and> (get_scheduler ctx1 = Inr a \<and> get_scheduler ctx2 = Inr d
              \<and> sched_addr ia \<noteq> sched_addr id'
            \<longrightarrow> scheduler_eq a d = Inr False)"
  using assms by (auto simp: scheduler_eq_def equals_def)

theorem scheduler_equality_witness:
  "scheduler_interface descending_scheduler = Some descending_backend
   \<and> scheduler_interface \<lparr>scheduler_interface = Some other_backend\<rparr> = Some other_backend
   \<and> get_scheduler \<lparr>impl = Some \<lparr>get_scheduler_impl = Some descending_backend\<rparr>\<rparr>
       = Inr descending_scheduler
   \<and> get_scheduler \<lparr>impl = Some \<lparr>get_scheduler_impl = Some other_backend\<rparr>\<rparr>
       = Inr \<lparr>scheduler_interface = Some other_backend\<rparr>
   \<and> sched_addr descending_backend \<noteq> sched_addr other_backend
   \<and> scheduler_eq descending_scheduler descending_scheduler = Inr True
   \<and> scheduler_eq descending_scheduler \<lparr>scheduler_interface = Some other_backend\<rparr> = Inr False"
proof -
  let ?o = "\<lparr>scheduler_interface = Some other_backend\<rparr>"
  have a: "scheduler_interface descending_scheduler = Some descending_backend" by simp
  have d: "scheduler_interface ?o = Some other_backend" by simp
  have g1: "get_scheduler \<lparr>impl = Some \<lparr>get_scheduler_impl = Some descending_backend\<rparr>\<rparr>
       = Inr descending_scheduler"
    by (simp add: get_scheduler_def)
  have g2: "get_scheduler \<lparr>impl = Some \<lparr>get_scheduler_impl = Some other_backend\<rparr>\<rparr> = Inr ?o"
    by (simp add: get_scheduler_def)
  have ne: "sched_addr descending_backend \<noteq> sched_addr other_backend" by simp
  from scheduler_equality [OF a a a d,
         of "\<lparr>impl = Some \<lparr>get_scheduler_impl = Some descending_backend\<rparr>\<rparr>"
            "\<lparr>impl = Some \<lparr>get_scheduler_impl = Some descending_backend\<rparr>\<rparr>"
            "\<lparr>impl = Some \<lparr>get_scheduler_impl = Some other_backend\<rparr>\<rparr>"]
  have "scheduler_eq descending_scheduler descending_scheduler = Inr True"
    and "scheduler_eq descending_scheduler ?o = Inr False"
    using g1 g2 ne by blast+
  with a d g1 g2 ne show ?thesis by blast
qed

text \<open>
  C10. A bulk stage whose scheduler pointer is null and whose prior stage completes with
  a value: the run returns, its only event is the allocation of the buffer, which is
  stored in the bulk state; no call goes into the backend, the per-index function is
  never called, the receiver observes no completion, and at the end the buffer is still
  on the heap.
\<close>

theorem bulk_null_scheduler_drops:
  "\<exists>op' w'. run_bulk \<lparr>scheduler_interface = None\<rparr> (OtherSender [PrevValue v]) n f r w = Inr (op', w')
     \<and> new_events w w' = [New (next_addr w) v]
     \<and> arguments_data (state op') = Some (next_addr w)
     \<and> os_bulk (state op') = None
     \<and> backend_calls (new_events w w') = []
     \<and> invocations (new_events w w') = []
     \<and> received r (new_events w w') = []
     \<and> heap w' (next_addr w) = Some v"
  by (simp add: run_bulk_def bulk_def bulk_connect_def bulk_start_def set_value_def Let_def
      emit_def new_events_def)

end
